theory Spec2Isabelle
  imports Complex_Main "HOL-Library.Sublist"
begin

section \<open>Python values, exceptions and the Java side\<close>

text \<open>
  The module \<^verbatim>\<open>pyboof/calib.py\<close> holds camera models as plain Python objects and
  hands every computation to BoofCV through a Java gateway. Python numbers held in the
  fields are modelled as \<^typ>\<open>real\<close> (finite values; an \<^verbatim>\<open>int\<close> field such as
  \<^verbatim>\<open>width\<close> as \<^typ>\<open>int\<close>). An exception is a value of \<open>py_error\<close>; a function that can
  raise returns \<open>py_error + 'a\<close>.
\<close>

datatype py_error =
    RuntimeError string
  | IndexError string
  | AttributeError string
  | Py4JJavaError string

fun exception_class :: "py_error \<Rightarrow> string" where
  "exception_class (RuntimeError _) = ''RuntimeError''"
| "exception_class (IndexError _) = ''IndexError''"
| "exception_class (AttributeError _) = ''AttributeError''"
| "exception_class (Py4JJavaError _) = ''Py4JJavaError''"

text \<open>
  A Java value as the gateway sees it. \<open>JNew c args calls\<close> is the object made by
  \<^verbatim>\<open>gateway.jvm.c(args)\<close> together with the calls made on it afterwards, in order
  (setters, \<^verbatim>\<open>addImage\<close>, ...); \<open>JInvoke obj m args\<close> is what the call
  \<^verbatim>\<open>obj.m(args)\<close> returned. What BoofCV computes from them is not part of this module.
\<close>

datatype jvalue =
    JBool bool
  | JInt int
  | JDouble real
  | JString string
  | JDoubleArray "real list"
  | JNew string "jvalue list" "(string \<times> jvalue list) list"
  | JInvoke jvalue string "jvalue list"

fun jcall :: "jvalue \<Rightarrow> string \<Rightarrow> jvalue list \<Rightarrow> jvalue" where
  "jcall (JNew c args calls) m as = JNew c args (calls @ [(m, as)])"
| "jcall v m as = v"

fun jclass :: "jvalue \<Rightarrow> string" where
  "jclass (JNew c args calls) = c"
| "jclass v = []"

fun jcalls :: "jvalue \<Rightarrow> (string \<times> jvalue list) list" where
  "jcalls (JNew c args calls) = calls"
| "jcalls v = []"

section \<open>Camera models\<close>

text \<open>
  \<^verbatim>\<open>CameraPinhole\<close>, \<^verbatim>\<open>CameraBrown(CameraPinhole)\<close>,
  \<^verbatim>\<open>CameraUniversalOmni(CameraBrown)\<close> and \<^verbatim>\<open>CameraKannalaBrandt(CameraPinhole)\<close>:
  inheritance is record extension. \<^verbatim>\<open>CameraBrown.radial\<close> is \<^verbatim>\<open>None\<close> or a list of
  floats. The field \<^verbatim>\<open>radial\<close> of \<^verbatim>\<open>CameraKannalaBrandt\<close> is always a list and is named
  \<open>radial_kb\<close> here.
\<close>

record CameraPinhole =
  fx :: real
  fy :: real
  skew :: real
  cx :: real
  cy :: real
  width :: int
  height :: int

record CameraBrown = CameraPinhole +
  radial :: "real list option"
  t1 :: real
  t2 :: real

record CameraUniversalOmni = CameraBrown +
  mirror_offset :: real

record CameraKannalaBrandt = CameraPinhole +
  symmetric :: "real list"
  radial_kb :: "real list"
  radialTrig :: "real list"
  tangent :: "real list"
  tangentTrig :: "real list"

text \<open>The constructors with \<^verbatim>\<open>java_object=None\<close>.\<close>

definition CameraPinhole_init :: CameraPinhole where
  "CameraPinhole_init =
     \<lparr>fx = 0, fy = 0, skew = 0, cx = 0, cy = 0, width = 0, height = 0\<rparr>"

definition CameraBrown_init :: CameraBrown where
  "CameraBrown_init =
     \<lparr>fx = 0, fy = 0, skew = 0, cx = 0, cy = 0, width = 0, height = 0,
      radial = None, t1 = 0, t2 = 0\<rparr>"

definition CameraUniversalOmni_init :: CameraUniversalOmni where
  "CameraUniversalOmni_init =
     \<lparr>fx = 0, fy = 0, skew = 0, cx = 0, cy = 0, width = 0, height = 0,
      radial = None, t1 = 0, t2 = 0, mirror_offset = 0\<rparr>"

definition CameraKannalaBrandt_init :: CameraKannalaBrandt where
  "CameraKannalaBrandt_init =
     \<lparr>fx = 0, fy = 0, skew = 0, cx = 0, cy = 0, width = 0, height = 0,
      symmetric = [], radial_kb = [], radialTrig = [], tangent = [], tangentTrig = []\<rparr>"

text \<open>\<^verbatim>\<open>CameraBrown.set_distortion(radial=None, t1=0, t2=0)\<close>.\<close>

definition set_distortion ::
  "'a CameraBrown_scheme \<Rightarrow> real list option \<Rightarrow> real \<Rightarrow> real \<Rightarrow> 'a CameraBrown_scheme" where
  "set_distortion self r a b = self\<lparr>radial := r, t1 := a, t2 := b\<rparr>"

text \<open>
  \<^verbatim>\<open>CameraBrown.is_distorted\<close>:
  \<^verbatim>\<open>return (self.radial is not None) or self.t1 != 0 or self.t2 != 0\<close>.
  \<^verbatim>\<open>CameraUniversalOmni\<close> inherits it.
\<close>

definition is_distorted :: "'a CameraBrown_scheme \<Rightarrow> bool" where
  "is_distorted self \<longleftrightarrow> radial self \<noteq> None \<or> t1 self \<noteq> 0 \<or> t2 self \<noteq> 0"

text \<open>
  A Python object handed to the module's functions: an instance of one of the four
  classes, or any other object (given by the name of its class).
\<close>

datatype camera_model =
    Pinhole CameraPinhole
  | Brown CameraBrown
  | UniversalOmni CameraUniversalOmni
  | KannalaBrandt CameraKannalaBrandt
  | OtherObject string

text \<open>\<^verbatim>\<open>isinstance\<close> follows the class hierarchy: a subclass instance is an instance of its bases.\<close>

fun isinstance_CameraPinhole :: "camera_model \<Rightarrow> bool" where
  "isinstance_CameraPinhole (Pinhole _) = True"
| "isinstance_CameraPinhole (Brown _) = True"
| "isinstance_CameraPinhole (UniversalOmni _) = True"
| "isinstance_CameraPinhole (KannalaBrandt _) = True"
| "isinstance_CameraPinhole (OtherObject _) = False"

fun isinstance_CameraBrown :: "camera_model \<Rightarrow> bool" where
  "isinstance_CameraBrown (Brown _) = True"
| "isinstance_CameraBrown (UniversalOmni _) = True"
| "isinstance_CameraBrown _ = False"

fun isinstance_CameraUniversalOmni :: "camera_model \<Rightarrow> bool" where
  "isinstance_CameraUniversalOmni (UniversalOmni _) = True"
| "isinstance_CameraUniversalOmni _ = False"

fun isinstance_CameraKannalaBrandt :: "camera_model \<Rightarrow> bool" where
  "isinstance_CameraKannalaBrandt (KannalaBrandt _) = True"
| "isinstance_CameraKannalaBrandt _ = False"

text \<open>\<^verbatim>\<open>"{}".format(type(camera_model))\<close>.\<close>

fun type_str :: "camera_model \<Rightarrow> string" where
  "type_str (Pinhole _) = ''<class '' @ [CHR 0x27] @ ''pyboof.calib.CameraPinhole'' @ [CHR 0x27] @ ''>''"
| "type_str (Brown _) = ''<class '' @ [CHR 0x27] @ ''pyboof.calib.CameraBrown'' @ [CHR 0x27] @ ''>''"
| "type_str (UniversalOmni _) =
     ''<class '' @ [CHR 0x27] @ ''pyboof.calib.CameraUniversalOmni'' @ [CHR 0x27] @ ''>''"
| "type_str (KannalaBrandt _) =
     ''<class '' @ [CHR 0x27] @ ''pyboof.calib.CameraKannalaBrandt'' @ [CHR 0x27] @ ''>''"
| "type_str (OtherObject c) = ''<class '' @ [CHR 0x27] @ c @ [CHR 0x27] @ ''>''"

section \<open>Conversion to BoofCV objects\<close>

text \<open>
  \<^verbatim>\<open>convert_to_boof(self, storage=None)\<close> of each class: the Java object is \<^verbatim>\<open>storage\<close>
  or a new one, and the setters are called on it in the order of the source.
\<close>

definition CameraPinhole_convert_to_boof ::
  "'a CameraPinhole_scheme \<Rightarrow> jvalue option \<Rightarrow> jvalue" where
  "CameraPinhole_convert_to_boof self storage =
     (let b0 = (case storage of
                  None \<Rightarrow> JNew ''boofcv.struct.calib.CameraPinholeBrown'' [] []
                | Some s \<Rightarrow> s);
          b1 = jcall b0 ''setFx'' [JDouble (fx self)];
          b2 = jcall b1 ''setFy'' [JDouble (fy self)];
          b3 = jcall b2 ''setCx'' [JDouble (cx self)];
          b4 = jcall b3 ''setCy'' [JDouble (cy self)];
          b5 = jcall b4 ''setSkew'' [JDouble (skew self)];
          b6 = jcall b5 ''setWidth'' [JInt (width self)];
          b7 = jcall b6 ''setHeight'' [JInt (height self)]
      in b7)"

definition CameraBrown_convert_to_boof ::
  "'a CameraBrown_scheme \<Rightarrow> jvalue option \<Rightarrow> jvalue" where
  "CameraBrown_convert_to_boof self storage =
     (let b0 = (case storage of
                  None \<Rightarrow> JNew ''boofcv.struct.calib.CameraPinholeBrown'' [] []
                | Some s \<Rightarrow> s);
          b1 = CameraPinhole_convert_to_boof self (Some b0);
          b2 = (case radial self of
                  None \<Rightarrow> b1
                | Some r \<Rightarrow> jcall b1 ''setRadial'' [JDoubleArray r]);
          b3 = jcall b2 ''setT1'' [JDouble (t1 self)];
          b4 = jcall b3 ''setT2'' [JDouble (t2 self)]
      in b4)"

definition CameraUniversalOmni_convert_to_boof ::
  "'a CameraUniversalOmni_scheme \<Rightarrow> jvalue option \<Rightarrow> jvalue" where
  "CameraUniversalOmni_convert_to_boof self storage =
     (let b0 = (case storage of
                  None \<Rightarrow> JNew ''boofcv.struct.calib.CameraUniversalOmni'' [JInt 0] []
                | Some s \<Rightarrow> s);
          b1 = CameraBrown_convert_to_boof self (Some b0)
      in jcall b1 ''setMirrorOffset'' [JDouble (mirror_offset self)])"

definition CameraKannalaBrandt_convert_to_boof ::
  "'a CameraKannalaBrandt_scheme \<Rightarrow> jvalue option \<Rightarrow> jvalue" where
  "CameraKannalaBrandt_convert_to_boof self storage =
     (let b0 = (case storage of
                  None \<Rightarrow> JNew ''boofcv.struct.calib.CameraKannalaBrandt''
                            [JInt (int (length (symmetric self))),
                             JInt (int (length (radial_kb self)))] []
                | Some s \<Rightarrow> s);
          b1 = CameraPinhole_convert_to_boof self (Some b0);
          b2 = jcall b1 ''setSymmetric'' [JDoubleArray (symmetric self)];
          b3 = jcall b2 ''setRadial'' [JDoubleArray (radial_kb self)];
          b4 = jcall b3 ''setRadialTrig'' [JDoubleArray (radialTrig self)];
          b5 = jcall b4 ''setTangent'' [JDoubleArray (tangent self)];
          b6 = jcall b5 ''setTangentTrig'' [JDoubleArray (tangentTrig self)]
      in b6)"

text \<open>
  The method calls \<^verbatim>\<open>camera_model.convert_to_boof()\<close> and
  \<^verbatim>\<open>camera_model.is_distorted()\<close> on an object whose class is found at run time.
\<close>

fun convert_to_boof :: "camera_model \<Rightarrow> py_error + jvalue" where
  "convert_to_boof (Pinhole p) = Inr (CameraPinhole_convert_to_boof p None)"
| "convert_to_boof (Brown b) = Inr (CameraBrown_convert_to_boof b None)"
| "convert_to_boof (UniversalOmni u) = Inr (CameraUniversalOmni_convert_to_boof u None)"
| "convert_to_boof (KannalaBrandt k) = Inr (CameraKannalaBrandt_convert_to_boof k None)"
| "convert_to_boof (OtherObject c) = Inl (AttributeError ''convert_to_boof'')"

fun call_is_distorted :: "camera_model \<Rightarrow> py_error + bool" where
  "call_is_distorted (Brown b) = Inr (is_distorted b)"
| "call_is_distorted (UniversalOmni u) = Inr (is_distorted u)"
| "call_is_distorted _ = Inl (AttributeError ''is_distorted'')"

section \<open>Lens distortion factories\<close>

text \<open>
  \<^verbatim>\<open>LensNarrowDistortionFactory\<close> and \<^verbatim>\<open>LensWideDistortionFactory\<close> are both a
  \<^verbatim>\<open>JavaWrapper\<close> (the field \<^verbatim>\<open>java_obj\<close>) with the flag \<^verbatim>\<open>use_32\<close>, whose default
  in \<^verbatim>\<open>__init__(self, java_object, use_32=True)\<close> is \<^verbatim>\<open>True\<close>.
\<close>

record lens_factory =
  java_obj :: jvalue
  use_32 :: bool

type_synonym LensNarrowDistortionFactory = lens_factory
type_synonym LensWideDistortionFactory = lens_factory

definition LensNarrowDistortionFactory_init ::
  "jvalue \<Rightarrow> bool option \<Rightarrow> LensNarrowDistortionFactory" where
  "LensNarrowDistortionFactory_init java_object u =
     \<lparr>java_obj = java_object, use_32 = (case u of None \<Rightarrow> True | Some b \<Rightarrow> b)\<rparr>"

definition LensWideDistortionFactory_init ::
  "jvalue \<Rightarrow> bool option \<Rightarrow> LensWideDistortionFactory" where
  "LensWideDistortionFactory_init java_object u =
     \<lparr>java_obj = java_object, use_32 = (case u of None \<Rightarrow> True | Some b \<Rightarrow> b)\<rparr>"

datatype py_transform = Transform2to2 jvalue | Transform3to2 jvalue | Transform2to3 jvalue

definition distort :: "LensNarrowDistortionFactory \<Rightarrow> bool \<Rightarrow> bool \<Rightarrow> py_transform" where
  "distort self pixel_in pixel_out =
     (let java_out =
        (if use_32 self
         then JInvoke (java_obj self) ''distort_F32'' [JBool pixel_in, JBool pixel_out]
         else JInvoke (java_obj self) ''distort_F64'' [JBool pixel_in, JBool pixel_out])
      in Transform2to2 java_out)"

definition undistort :: "LensNarrowDistortionFactory \<Rightarrow> bool \<Rightarrow> bool \<Rightarrow> py_transform" where
  "undistort self pixel_in pixel_out =
     (let java_out =
        (if use_32 self
         then JInvoke (java_obj self) ''undistort_F32'' [JBool pixel_in, JBool pixel_out]
         else JInvoke (java_obj self) ''undistort_F64'' [JBool pixel_in, JBool pixel_out])
      in Transform2to2 java_out)"

definition distort_s_to_p :: "LensWideDistortionFactory \<Rightarrow> py_transform" where
  "distort_s_to_p self =
     (let java_out =
        (if use_32 self
         then JInvoke (java_obj self) ''distortStoP_F32'' []
         else JInvoke (java_obj self) ''distortStoP_F64'' [])
      in Transform3to2 java_out)"

definition undistort_p_to_s :: "LensWideDistortionFactory \<Rightarrow> py_transform" where
  "undistort_p_to_s self =
     (let java_out =
        (if use_32 self
         then JInvoke (java_obj self) ''undistortPtoS_F32'' []
         else JInvoke (java_obj self) ''undistortPtoS_F64'' [])
      in Transform2to3 java_out)"

text \<open>
  \<^verbatim>\<open>create_narrow_lens_distorter(camera_model)\<close>, with the \<^verbatim>\<open>isinstance\<close> tests in the
  order of the source.
\<close>

definition create_narrow_lens_distorter ::
  "camera_model \<Rightarrow> py_error + LensNarrowDistortionFactory" where
  "create_narrow_lens_distorter camera_model =
     (if isinstance_CameraUniversalOmni camera_model then
        Inl (RuntimeError ''CameraUniversalOmni is not a narrow FOV camera model'')
      else if isinstance_CameraPinhole camera_model then
        (case convert_to_boof camera_model of
           Inl e \<Rightarrow> Inl e
         | Inr boof_model \<Rightarrow>
             Inr (LensNarrowDistortionFactory_init
                    (JNew ''boofcv.alg.distort.pinhole.LensDistortionPinhole'' [boof_model] [])
                    None))
      else if isinstance_CameraBrown camera_model then
        (case convert_to_boof camera_model of
           Inl e \<Rightarrow> Inl e
         | Inr boof_model \<Rightarrow>
             (case call_is_distorted camera_model of
                Inl e \<Rightarrow> Inl e
              | Inr d \<Rightarrow>
                  if d then
                    Inr (LensNarrowDistortionFactory_init
                           (JNew ''boofcv.alg.distort.brown.LensDistortionBrown'' [boof_model] [])
                           None)
                  else
                    Inr (LensNarrowDistortionFactory_init
                           (JNew ''boofcv.alg.distort.pinhole.LensDistortionPinhole'' [boof_model] [])
                           None)))
      else Inl (RuntimeError (''Unknown camera model '' @ type_str camera_model)))"

text \<open>\<^verbatim>\<open>create_wide_lens_distorter(camera_model)\<close>.\<close>

definition create_wide_lens_distorter ::
  "camera_model \<Rightarrow> py_error + LensWideDistortionFactory" where
  "create_wide_lens_distorter camera_model =
     (if isinstance_CameraUniversalOmni camera_model then
        (case convert_to_boof camera_model of
           Inl e \<Rightarrow> Inl e
         | Inr boof_model \<Rightarrow>
             Inr (LensWideDistortionFactory_init
                    (JNew ''boofcv.alg.distort.universal.LensDistortionUniversalOmni'' [boof_model] [])
                    None))
      else if isinstance_CameraKannalaBrandt camera_model then
        (case convert_to_boof camera_model of
           Inl e \<Rightarrow> Inl e
         | Inr boof_model \<Rightarrow>
             Inr (LensWideDistortionFactory_init
                    (JNew ''boofcv.alg.distort.kanbra.LensDistortionKannalaBrandt'' [boof_model] [])
                    None))
      else Inl (RuntimeError (''Unknown camera model '' @ type_str camera_model)))"

section \<open>String rendering\<close>

text \<open>
  Python's own formatting, on the values of the model: \<^verbatim>\<open>str\<close> of an \<^verbatim>\<open>int\<close> (also what
  \<^verbatim>\<open>{:d}\<close> prints), and \<^verbatim>\<open>{:f}\<close>, which prints six decimals of the value rounded half to
  even, with a sign for a negative value. \<^verbatim>\<open>str\<close> of a float (the shortest decimal that
  reads back as the same float) depends on the binary representation and is a parameter
  \<open>S\<close> of the renderers below.
\<close>

definition digit_char :: "nat \<Rightarrow> char" where
  "digit_char n = ''0123456789'' ! n"

fun str_nat :: "nat \<Rightarrow> string" where
  "str_nat n = (if n < 10 then [digit_char n] else str_nat (n div 10) @ [digit_char (n mod 10)])"

declare str_nat.simps [simp del]

definition str_int :: "int \<Rightarrow> string" where
  "str_int i = (if i < 0 then ''-'' @ str_nat (nat (- i)) else str_nat (nat i))"

definition round_half_even :: "real \<Rightarrow> int" where
  "round_half_even r =
     (let f = \<lfloor>r\<rfloor>; d = r - of_int f
      in if d < 1 / 2 then f else if 1 / 2 < d then f + 1 else if even f then f else f + 1)"

definition format_f :: "real \<Rightarrow> string" where
  "format_f x =
     (let n = nat (round_half_even (\<bar>x\<bar> * 1000000));
          frac = str_nat (n mod 1000000)
      in (if x < 0 then ''-'' else [])
         @ str_nat (n div 1000000) @ ''.'' @ replicate (6 - length frac) (CHR ''0'') @ frac)"

fun py_join :: "string \<Rightarrow> string list \<Rightarrow> string" where
  "py_join sep [] = []"
| "py_join sep [x] = x"
| "py_join sep (x # y # ys) = x @ sep @ py_join sep (y # ys)"

definition str_list :: "(real \<Rightarrow> string) \<Rightarrow> real list \<Rightarrow> string" where
  "str_list S xs = ''['' @ py_join '', '' (map S xs) @ '']''"

definition str_radial :: "(real \<Rightarrow> string) \<Rightarrow> real list option \<Rightarrow> string" where
  "str_radial S r = (case r of None \<Rightarrow> ''None'' | Some xs \<Rightarrow> str_list S xs)"

text \<open>
  The four format templates share the piece
  \<^verbatim>\<open> fx={:f} fy={:f} skew={:f} cx={:f} cy={:f} | width={:d} height={:d}\<close>
  (\<^verbatim>\<open>{{\<close> in a template prints one brace).
\<close>

definition intrinsics_text :: "'a CameraPinhole_scheme \<Rightarrow> string" where
  "intrinsics_text self =
     '' fx='' @ format_f (fx self) @ '' fy='' @ format_f (fy self)
     @ '' skew='' @ format_f (skew self) @ '' cx='' @ format_f (cx self)
     @ '' cy='' @ format_f (cy self) @ '' |''
     @ '' width='' @ str_int (width self) @ '' height='' @ str_int (height self)"

definition CameraPinhole_str :: "CameraPinhole \<Rightarrow> string" where
  "CameraPinhole_str self = ''Pinhole{'' @ intrinsics_text self @ ''}''"

text \<open>
  \<^verbatim>\<open>CameraBrown.__str__\<close>: the template ends in a blank; the distortion terms are added
  only \<^verbatim>\<open>if self.is_distorted()\<close>, and the text added to \<^verbatim>\<open>out\<close> afterwards is not a
  template, so its braces are printed as they stand.
\<close>

definition CameraBrown_str :: "(real \<Rightarrow> string) \<Rightarrow> CameraBrown \<Rightarrow> string" where
  "CameraBrown_str S self =
     (let out = ''Brown{'' @ intrinsics_text self @ '' ''
      in if is_distorted self then
           out @ '' |'' @ '' radial='' @ str_radial S (radial self) @ '' t1='' @ S (t1 self)
               @ '' t1='' @ S (t2 self) @ '' }''
         else out @ ''}}'')"

definition CameraUniversalOmni_str :: "(real \<Rightarrow> string) \<Rightarrow> CameraUniversalOmni \<Rightarrow> string" where
  "CameraUniversalOmni_str S self =
     (let out = ''UniversalOmni{'' @ intrinsics_text self @ '' |''
                @ '' mirror='' @ format_f (mirror_offset self)
      in if is_distorted self then
           out @ '' |'' @ '' radial='' @ str_radial S (radial self) @ '' t1='' @ S (t1 self)
               @ '' t1='' @ S (t2 self) @ '' }''
         else out @ ''}}'')"

definition CameraKannalaBrandt_str :: "(real \<Rightarrow> string) \<Rightarrow> CameraKannalaBrandt \<Rightarrow> string" where
  "CameraKannalaBrandt_str S self =
     (let out = ''CameraKannalaBrandt{'' @ intrinsics_text self
      in out @ '' |'' @ '' symmetric='' @ str_list S (symmetric self)
             @ '' radial='' @ str_list S (radial_kb self)
             @ '' radialTrig='' @ str_list S (radialTrig self)
             @ '' tangent='' @ str_list S (tangent self)
             @ '' tangentTrig='' @ str_list S (tangentTrig self) @ '' }}'')"

text \<open>
  \<open>str_whole\<close> is \<^verbatim>\<open>str\<close> of a float whose value is a whole number below \<open>10^16\<close>
  (\<^verbatim>\<open>str(2.0) == '2.0'\<close>); the examples use it at such values.
\<close>

definition str_whole :: "real \<Rightarrow> string" where
  "str_whole x = str_int \<lfloor>x\<rfloor> @ ''.0''"

section \<open>Calibration\<close>

text \<open>
  One observation is a dictionary with the keys \<^verbatim>\<open>width\<close>, \<^verbatim>\<open>height\<close> and
  \<^verbatim>\<open>pixels\<close>, the latter a list of \<^verbatim>\<open>(index, x, y)\<close>.
\<close>

record observation =
  obs_width :: int
  obs_height :: int
  pixels :: "(int \<times> real \<times> real) list"

fun add_points :: "jvalue \<Rightarrow> (int \<times> real \<times> real) list \<Rightarrow> jvalue" where
  "add_points jobs [] = jobs"
| "add_points jobs ((i, x, y) # os) =
     add_points
       (jcall jobs ''add''
          [JNew ''georegression.struct.point.Point2D_F64'' [JDouble x, JDouble y] [], JInt i])
       os"

definition convert_into_boof_calibration_observations :: "observation \<Rightarrow> jvalue" where
  "convert_into_boof_calibration_observations observations =
     add_points
       (JNew ''boofcv.alg.geo.calibration.CalibrationObservation''
          [JInt (obs_width observations), JInt (obs_height observations)] [])
       (pixels observations)"

fun add_images :: "jvalue \<Rightarrow> observation list \<Rightarrow> jvalue" where
  "add_images jcalib_planar [] = jcalib_planar"
| "add_images jcalib_planar (ob # obs) =
     add_images
       (jcall jcalib_planar ''addImage'' [convert_into_boof_calibration_observations ob]) obs"

record calibration_error =
  mean :: real
  max_error :: real
  bias_x :: real
  bias_y :: real

text \<open>
  \<^verbatim>\<open>calibrate_universal\<close>. \<open>universal_solver\<close> is \<^verbatim>\<open>jcalib_planar\<close> when
  \<^verbatim>\<open>process()\<close> is called on it. What BoofCV then returns (the fitted model as
  \<^verbatim>\<open>CameraUniversalOmni(...)\<close> reads it back, and the error statistics, or a Java
  exception) is the parameter \<open>solve\<close>.
\<close>

definition universal_solver ::
  "observation list \<Rightarrow> jvalue \<Rightarrow> int \<Rightarrow> bool \<Rightarrow> bool \<Rightarrow> real option \<Rightarrow> jvalue" where
  "universal_solver observations jlayout num_radial tangential zero_skew mirror_offset_arg =
     (let jcalib_planar = JNew ''boofcv.abst.geo.calibration.CalibrateMonoPlanar'' [jlayout] [];
          configured =
            (case mirror_offset_arg of
               None \<Rightarrow>
                 jcall jcalib_planar ''configureUniversalOmni''
                   [JBool zero_skew, JInt num_radial, JBool tangential]
             | Some m \<Rightarrow>
                 jcall jcalib_planar ''configureUniversalOmni''
                   [JBool zero_skew, JInt num_radial, JBool tangential, JDouble m])
      in add_images configured observations)"

definition calibrate_universal ::
  "(jvalue \<Rightarrow> py_error + CameraUniversalOmni \<times> calibration_error list) \<Rightarrow>
   observation list \<Rightarrow> jvalue \<Rightarrow> int \<Rightarrow> bool \<Rightarrow> bool \<Rightarrow> real option \<Rightarrow>
   py_error + CameraUniversalOmni \<times> calibration_error list" where
  "calibrate_universal solve observations jlayout num_radial tangential zero_skew mirror_offset_arg =
     solve (universal_solver observations jlayout num_radial tangential zero_skew mirror_offset_arg)"

text \<open>
  How BoofCV's \<^verbatim>\<open>CalibrateMonoPlanar.configureUniversalOmni\<close> treats the mirror offset:
  the call without a fourth argument has it estimated, the call with one keeps it at that
  value (the docstring of \<^verbatim>\<open>calibrate_universal\<close>: "If None it will be estimated").
\<close>

datatype mirror_setting = MirrorEstimated | MirrorFixed real

fun configured_mirror :: "string \<times> jvalue list \<Rightarrow> mirror_setting option" where
  "configured_mirror (m, [JBool _, JInt _, JBool _]) =
     (if m = ''configureUniversalOmni'' then Some MirrorEstimated else None)"
| "configured_mirror (m, [JBool _, JInt _, JBool _, JDouble v]) =
     (if m = ''configureUniversalOmni'' then Some (MirrorFixed v) else None)"
| "configured_mirror _ = None"

text \<open>
  \<^verbatim>\<open>calibrate_stereo\<close>: the loop \<^verbatim>\<open>for idx in range(len(observations_left))\<close> reads
  \<^verbatim>\<open>observations_left[idx]\<close> and \<^verbatim>\<open>observations_right[idx]\<close>; reading a list past its
  end raises \<^verbatim>\<open>IndexError\<close>.
\<close>

definition py_getitem :: "'a list \<Rightarrow> nat \<Rightarrow> py_error + 'a" where
  "py_getitem xs idx =
     (if idx < length xs then Inr (xs ! idx) else Inl (IndexError ''list index out of range''))"

fun add_pairs ::
  "jvalue \<Rightarrow> observation list \<Rightarrow> observation list \<Rightarrow> nat list \<Rightarrow> py_error + jvalue" where
  "add_pairs jcalib_planar observations_left observations_right [] = Inr jcalib_planar"
| "add_pairs jcalib_planar observations_left observations_right (idx # rest) =
     (case py_getitem observations_left idx of
        Inl e \<Rightarrow> Inl e
      | Inr o_left \<Rightarrow>
          (case py_getitem observations_right idx of
             Inl e \<Rightarrow> Inl e
           | Inr o_right \<Rightarrow>
               add_pairs
                 (jcall jcalib_planar ''addPair''
                    [convert_into_boof_calibration_observations o_left,
                     convert_into_boof_calibration_observations o_right])
                 observations_left observations_right rest))"

definition stereo_solver ::
  "observation list \<Rightarrow> observation list \<Rightarrow> jvalue \<Rightarrow> int \<Rightarrow> bool \<Rightarrow> bool \<Rightarrow> py_error + jvalue" where
  "stereo_solver observations_left observations_right jlayout num_radial tangential zero_skew =
     (let jcalib_planar = JNew ''boofcv.abst.geo.calibration.CalibrateStereoPlanar'' [jlayout] [];
          configured =
            jcall jcalib_planar ''configure'' [JBool zero_skew, JInt num_radial, JBool tangential]
      in add_pairs configured observations_left observations_right
           [0..<length observations_left])"

definition calibrate_stereo ::
  "(jvalue \<Rightarrow> py_error + 'r) \<Rightarrow> observation list \<Rightarrow> observation list \<Rightarrow> jvalue \<Rightarrow>
   int \<Rightarrow> bool \<Rightarrow> bool \<Rightarrow> py_error + 'r" where
  "calibrate_stereo solve observations_left observations_right jlayout num_radial tangential
     zero_skew =
     (case stereo_solver observations_left observations_right jlayout num_radial tangential
             zero_skew of
        Inl e \<Rightarrow> Inl e
      | Inr jcalib_planar \<Rightarrow> solve jcalib_planar)"

section \<open>Removing distortion: objects in a store\<close>

text \<open>
  \<^verbatim>\<open>remove_distortion\<close> creates objects and assigns to their attributes, so it is modelled
  over a store: a list of objects, a reference being an index into it. An object is an
  instance of one of the classes together with the attributes assigned to it beyond those
  its class sets up (\<^verbatim>\<open>desired.radial = [0, 0]\<close> on a \<^verbatim>\<open>CameraPinhole\<close>). No function
  of the module changes a list in place, so a coefficient list is a value of its field.
\<close>

datatype pyval = PyNone | PyInt int | PyFloat real | PyList "pyval list"

record py_object =
  obj :: camera_model
  extras :: "string \<rightharpoonup> pyval"

type_synonym heap = "py_object list"

definition alloc :: "heap \<Rightarrow> camera_model \<Rightarrow> nat \<times> heap" where
  "alloc h c = (length h, h @ [\<lparr>obj = c, extras = Map.empty\<rparr>])"

definition set_extra :: "heap \<Rightarrow> nat \<Rightarrow> string \<Rightarrow> pyval \<Rightarrow> heap" where
  "set_extra h a name v = h[a := (h ! a)\<lparr>extras := (extras (h ! a))(name \<mapsto> v)\<rparr>]"

text \<open>
  \<^verbatim>\<open>CameraPinhole.set(self, orig)\<close>: the seven attributes are read from \<^verbatim>\<open>orig\<close> (an
  object without them raises \<^verbatim>\<open>AttributeError\<close>) and assigned to \<^verbatim>\<open>self\<close>.
\<close>

definition CameraPinhole_set ::
  "'a CameraPinhole_scheme \<Rightarrow> 'b CameraPinhole_scheme \<Rightarrow> 'a CameraPinhole_scheme" where
  "CameraPinhole_set self orig =
     self\<lparr>fx := fx orig, fy := fy orig, skew := skew orig, cx := cx orig, cy := cy orig,
          width := width orig, height := height orig\<rparr>"

fun pinhole_fields :: "camera_model \<Rightarrow> py_error + CameraPinhole" where
  "pinhole_fields (Pinhole p) = Inr p"
| "pinhole_fields (Brown b) = Inr (CameraPinhole.truncate b)"
| "pinhole_fields (UniversalOmni u) = Inr (CameraPinhole.truncate u)"
| "pinhole_fields (KannalaBrandt k) = Inr (CameraPinhole.truncate k)"
| "pinhole_fields (OtherObject c) = Inl (AttributeError ''fx'')"

fun with_pinhole_fields :: "CameraPinhole \<Rightarrow> camera_model \<Rightarrow> camera_model" where
  "with_pinhole_fields orig (Pinhole p) = Pinhole (CameraPinhole_set p orig)"
| "with_pinhole_fields orig (Brown b) = Brown (CameraPinhole_set b orig)"
| "with_pinhole_fields orig (UniversalOmni u) = UniversalOmni (CameraPinhole_set u orig)"
| "with_pinhole_fields orig (KannalaBrandt k) = KannalaBrandt (CameraPinhole_set k orig)"
| "with_pinhole_fields orig (OtherObject c) = OtherObject c"

definition CameraPinhole_set_at :: "heap \<Rightarrow> nat \<Rightarrow> nat \<Rightarrow> py_error option \<times> heap" where
  "CameraPinhole_set_at h self orig =
     (case pinhole_fields (obj (h ! orig)) of
        Inl e \<Rightarrow> (Some e, h)
      | Inr p \<Rightarrow> (None, h[self := (h ! self)\<lparr>obj := with_pinhole_fields p (obj (h ! self))\<rparr>]))"

text \<open>\<^verbatim>\<open>class AdjustmentType\<close> and \<^verbatim>\<open>adjustment_to_java\<close>.\<close>

definition AdjustmentType_NONE :: int where "AdjustmentType_NONE = 0"
definition AdjustmentType_FULL_VIEW :: int where "AdjustmentType_FULL_VIEW = 1"
definition AdjustmentType_EXPAND :: int where "AdjustmentType_EXPAND = 2"

definition adjustment_to_java :: "int \<Rightarrow> py_error + jvalue" where
  "adjustment_to_java v =
     (if v = AdjustmentType_NONE then
        Inr (JNew ''boofcv.alg.distort.AdjustmentType.valueOf'' [JString ''NONE''] [])
      else if v = AdjustmentType_FULL_VIEW then
        Inr (JNew ''boofcv.alg.distort.AdjustmentType.valueOf'' [JString ''FULL_VIEW''] [])
      else if v = AdjustmentType_EXPAND then
        Inr (JNew ''boofcv.alg.distort.AdjustmentType.valueOf'' [JString ''EXPAND''] [])
      else Inl (RuntimeError ''Unknown type''))"

text \<open>
  What lies outside this module: \<^verbatim>\<open>border_to_java\<close> (of \<^verbatim>\<open>pyboof.ip\<close>), BoofCV's
  \<^verbatim>\<open>LensDistortionOps.changeCameraModel\<close> (it returns the image distortion and fills
  \<^verbatim>\<open>java_intrinsic_out\<close>, whose seven values \<^verbatim>\<open>CameraPinhole(java_intrinsic_out)\<close> then
  reads) and \<^verbatim>\<open>ImageDistort.apply\<close>. Each may raise. None of them holds a reference to
  a Python object: they are given Java values only.
\<close>

record externals =
  border_to_java :: "int \<Rightarrow> py_error + jvalue"
  changeCameraModel :: "jvalue list \<Rightarrow> py_error + jvalue \<times> CameraPinhole"
  apply_distort :: "jvalue \<Rightarrow> jvalue \<Rightarrow> jvalue \<Rightarrow> py_error option"

definition create_change_camera_model ::
  "externals \<Rightarrow> heap \<Rightarrow> nat \<Rightarrow> nat \<Rightarrow> jvalue \<Rightarrow> int \<Rightarrow> int \<Rightarrow>
   (py_error + jvalue \<times> nat) \<times> heap" where
  "create_change_camera_model X h intrinsic_orig intrinsic_desired java_image_type adjustment
     border =
     (case adjustment_to_java adjustment of
        Inl e \<Rightarrow> (Inl e, h)
      | Inr java_adjustment \<Rightarrow>
     (case border_to_java X border of
        Inl e \<Rightarrow> (Inl e, h)
      | Inr java_border \<Rightarrow>
     (case convert_to_boof (obj (h ! intrinsic_orig)) of
        Inl e \<Rightarrow> (Inl e, h)
      | Inr java_original \<Rightarrow>
     (case convert_to_boof (obj (h ! intrinsic_desired)) of
        Inl e \<Rightarrow> (Inl e, h)
      | Inr java_desired \<Rightarrow>
     (let java_intrinsic_out = JNew ''boofcv.struct.calib.CameraPinholeBrown'' [] []
      in case changeCameraModel X
                [java_adjustment, java_border, java_original, java_desired,
                 java_intrinsic_out, java_image_type] of
           Inl e \<Rightarrow> (Inl e, h)
         | Inr (distorter, out_values) \<Rightarrow>
             (let (intrinsic_out, h') = alloc h (Pinhole out_values)
              in (Inr (distorter, intrinsic_out), h')))))))"

definition remove_distortion ::
  "externals \<Rightarrow> heap \<Rightarrow> jvalue \<Rightarrow> jvalue \<Rightarrow> nat \<Rightarrow> int \<Rightarrow> int \<Rightarrow> (py_error + nat) \<times> heap" where
  "remove_distortion X h input output intrinsic adjustment border =
     (let java_image_type = JInvoke input ''getImageType'' [];
          (desired, h1) = alloc h (Pinhole CameraPinhole_init)
      in case CameraPinhole_set_at h1 desired intrinsic of
           (Some e, h2) \<Rightarrow> (Inl e, h2)
         | (None, h2) \<Rightarrow>
             (let h3 = set_extra h2 desired ''radial'' (PyList [PyInt 0, PyInt 0]);
                  h4 = set_extra h3 desired ''t1'' (PyInt 0);
                  h5 = set_extra h4 desired ''t2'' (PyInt 0)
              in case create_change_camera_model X h5 intrinsic desired java_image_type
                        adjustment border of
                   (Inl e, h6) \<Rightarrow> (Inl e, h6)
                 | (Inr (distorter, intrinsic_out), h6) \<Rightarrow>
                     (case apply_distort X distorter input output of
                        Some e \<Rightarrow> (Inl e, h6)
                      | None \<Rightarrow> (Inr intrinsic_out, h6))))"

section \<open>Notions used to state the properties\<close>

text \<open>The radial coefficient sequence of a Brown model holds at least one coefficient.\<close>

definition radial_nonempty :: "'a CameraBrown_scheme \<Rightarrow> bool" where
  "radial_nonempty self = (case radial self of None \<Rightarrow> False | Some xs \<Rightarrow> xs \<noteq> [])"

text \<open>
  The precision of a transform is that of the Java method that made it: the methods of
  a BoofCV lens distortion come in pairs \<^verbatim>\<open>m_F32\<close> and \<^verbatim>\<open>m_F64\<close>.
\<close>

datatype precision = F32 | F64

definition method_precision :: "string \<Rightarrow> precision option" where
  "method_precision m =
     (let tail = drop (length m - 4) m
      in if tail = ''_F32'' then Some F32 else if tail = ''_F64'' then Some F64 else None)"

fun transform_precision :: "py_transform \<Rightarrow> precision option" where
  "transform_precision (Transform2to2 (JInvoke _ m _)) = method_precision m"
| "transform_precision (Transform3to2 (JInvoke _ m _)) = method_precision m"
| "transform_precision (Transform2to3 (JInvoke _ m _)) = method_precision m"
| "transform_precision _ = None"

definition factory_precision :: "lens_factory \<Rightarrow> precision" where
  "factory_precision f = (if use_32 f then F32 else F64)"

text \<open>A text shows a value under a label when the label, followed at once by the value, occurs in it.\<close>

definition renders :: "string \<Rightarrow> string \<Rightarrow> string \<Rightarrow> bool" where
  "renders text label val \<longleftrightarrow> sublist (label @ val) text"

definition renders_intrinsics :: "'a CameraPinhole_scheme \<Rightarrow> string \<Rightarrow> bool" where
  "renders_intrinsics self text \<longleftrightarrow>
     renders text '' fx='' (format_f (fx self)) \<and>
     renders text '' fy='' (format_f (fy self)) \<and>
     renders text '' skew='' (format_f (skew self)) \<and>
     renders text '' cx='' (format_f (cx self)) \<and>
     renders text '' cy='' (format_f (cy self)) \<and>
     renders text '' width='' (str_int (width self)) \<and>
     renders text '' height='' (str_int (height self))"

text \<open>The call \<^verbatim>\<open>addPair(jobs_left, jobs_right)\<close> for one pair of observations.\<close>

definition pair_call :: "observation \<times> observation \<Rightarrow> string \<times> jvalue list" where
  "pair_call p =
     (''addPair'', [convert_into_boof_calibration_observations (fst p),
                    convert_into_boof_calibration_observations (snd p)])"

section \<open>Concrete inputs\<close>

definition example_pinhole :: CameraPinhole where
  "example_pinhole =
     \<lparr>fx = 500, fy = 500, skew = 0, cx = 320, cy = 240, width = 640, height = 480\<rparr>"

definition example_brown :: CameraBrown where
  "example_brown =
     \<lparr>fx = 500, fy = 500, skew = 0, cx = 320, cy = 240, width = 640, height = 480,
      radial = Some [- 1 / 4, 1 / 16], t1 = 0, t2 = 0\<rparr>"

definition brown_empty_radial :: CameraBrown where
  "brown_empty_radial =
     \<lparr>fx = 500, fy = 500, skew = 0, cx = 320, cy = 240, width = 640, height = 480,
      radial = Some [], t1 = 0, t2 = 0\<rparr>"

definition brown_tangential :: CameraBrown where
  "brown_tangential =
     \<lparr>fx = 500, fy = 500, skew = 0, cx = 320, cy = 240, width = 640, height = 480,
      radial = None, t1 = 0, t2 = 1\<rparr>"

definition example_omni :: CameraUniversalOmni where
  "example_omni =
     \<lparr>fx = 500, fy = 500, skew = 0, cx = 320, cy = 240, width = 640, height = 480,
      radial = Some [- 1 / 4, 1 / 16], t1 = 0, t2 = 0, mirror_offset = 1\<rparr>"

definition example_kb :: CameraKannalaBrandt where
  "example_kb =
     \<lparr>fx = 500, fy = 500, skew = 0, cx = 320, cy = 240, width = 640, height = 480,
      symmetric = [1, 1 / 2], radial_kb = [], radialTrig = [], tangent = [], tangentTrig = []\<rparr>"

definition example_narrow_factory :: LensNarrowDistortionFactory where
  "example_narrow_factory =
     \<lparr>java_obj = JNew ''boofcv.alg.distort.pinhole.LensDistortionPinhole''
                   [CameraPinhole_convert_to_boof example_pinhole None] [],
      use_32 = True\<rparr>"

definition example_wide_factory :: LensWideDistortionFactory where
  "example_wide_factory =
     \<lparr>java_obj = JNew ''boofcv.alg.distort.kanbra.LensDistortionKannalaBrandt''
                   [CameraKannalaBrandt_convert_to_boof example_kb None] [],
      use_32 = True\<rparr>"

definition obs_a :: observation where
  "obs_a = \<lparr>obs_width = 640, obs_height = 480, pixels = [(0, 10, 20), (1, 30, 40)]\<rparr>"

definition obs_b :: observation where
  "obs_b = \<lparr>obs_width = 640, obs_height = 480, pixels = [(0, 11, 21)]\<rparr>"

definition example_externals :: externals where
  "example_externals =
     \<lparr>border_to_java = (\<lambda>b. Inr (JInt b)),
      changeCameraModel =
        (\<lambda>args. Inr (JString ''ImageDistort'',
           \<lparr>fx = 400, fy = 400, skew = 0, cx = 320, cy = 240, width = 640, height = 480\<rparr>)),
      apply_distort = (\<lambda>distorter inp outp. None)\<rparr>"

definition example_heap :: heap where
  "example_heap = [\<lparr>obj = Brown example_brown, extras = Map.empty\<rparr>]"

section \<open>Distortion test and dispatch of the build functions\<close>

text \<open>
  C3, as the code has it: \<^verbatim>\<open>is_distorted()\<close> is true exactly when \<^verbatim>\<open>radial\<close> is not
  \<^verbatim>\<open>None\<close>, or \<^verbatim>\<open>t1\<close> is nonzero, or \<^verbatim>\<open>t2\<close> is nonzero. For every Brown model
  whose \<^verbatim>\<open>radial\<close> is not the empty list this is the same as: the radial sequence is
  non-empty, or \<^verbatim>\<open>t1\<close> is nonzero, or \<^verbatim>\<open>t2\<close> is nonzero. A model whose \<^verbatim>\<open>radial\<close> is
  the empty list is reported as distorted.
\<close>

theorem is_distorted_iff_radial_not_None:
  "(is_distorted b \<longleftrightarrow> radial b \<noteq> None \<or> t1 b \<noteq> 0 \<or> t2 b \<noteq> 0) \<and>
   (radial b \<noteq> Some [] \<longrightarrow>
      (is_distorted b \<longleftrightarrow> radial_nonempty b \<or> t1 b \<noteq> 0 \<or> t2 b \<noteq> 0)) \<and>
   (radial b = Some [] \<longrightarrow> is_distorted b)"
  by (auto simp add: is_distorted_def radial_nonempty_def split: option.splits)

theorem is_distorted_iff_radial_not_None_witness:
  "radial example_brown \<noteq> Some [] \<and> is_distorted example_brown \<and>
   radial_nonempty example_brown \<and>
   radial CameraBrown_init \<noteq> Some [] \<and> \<not> is_distorted CameraBrown_init \<and>
   radial brown_empty_radial = Some [] \<and> is_distorted brown_empty_radial"
  using is_distorted_iff_radial_not_None [of example_brown]
    is_distorted_iff_radial_not_None [of CameraBrown_init]
    is_distorted_iff_radial_not_None [of brown_empty_radial]
  by (simp add: example_brown_def brown_empty_radial_def CameraBrown_init_def
      radial_nonempty_def)

text \<open>
  C3 as stated fails for a Brown model whose \<^verbatim>\<open>radial\<close> is the empty list and whose
  tangential terms are zero: its radial sequence is empty, and \<^verbatim>\<open>is_distorted()\<close> is true.
\<close>

theorem is_distorted_empty_radial_counterexample:
  "\<not> (is_distorted brown_empty_radial \<longleftrightarrow>
        radial_nonempty brown_empty_radial \<or> t1 brown_empty_radial \<noteq> 0
        \<or> t2 brown_empty_radial \<noteq> 0)"
  by (simp add: is_distorted_def radial_nonempty_def brown_empty_radial_def)

text \<open>
  Every instance of \<^verbatim>\<open>CameraBrown\<close> is an instance of \<^verbatim>\<open>CameraPinhole\<close>, and that test
  comes first: the branch that asks \<^verbatim>\<open>is_distorted()\<close> is never reached.
\<close>

lemma narrow_brown_engine:
  "create_narrow_lens_distorter (Brown b) =
     Inr \<lparr>java_obj = JNew ''boofcv.alg.distort.pinhole.LensDistortionPinhole''
                        [CameraBrown_convert_to_boof b None] [],
          use_32 = True\<rparr>"
  by (simp add: create_narrow_lens_distorter_def LensNarrowDistortionFactory_init_def)

lemma narrow_pinhole_engine:
  "create_narrow_lens_distorter (Pinhole p) =
     Inr \<lparr>java_obj = JNew ''boofcv.alg.distort.pinhole.LensDistortionPinhole''
                        [CameraPinhole_convert_to_boof p None] [],
          use_32 = True\<rparr>"
  by (simp add: create_narrow_lens_distorter_def LensNarrowDistortionFactory_init_def)

text \<open>
  C1 at a distorted Brown model: \<^verbatim>\<open>is_distorted()\<close> is true, and
  \<^verbatim>\<open>create_narrow_lens_distorter\<close> builds the factory on \<^verbatim>\<open>LensDistortionPinhole\<close>, not
  on \<^verbatim>\<open>LensDistortionBrown\<close>.
\<close>

theorem narrow_distorted_brown_gets_pinhole_engine:
  "call_is_distorted (Brown example_brown) = Inr True \<and>
   map_sum id (\<lambda>f. jclass (java_obj f)) (create_narrow_lens_distorter (Brown example_brown))
     = Inr ''boofcv.alg.distort.pinhole.LensDistortionPinhole''"
  by (simp add: narrow_brown_engine) (simp add: is_distorted_def example_brown_def)

text \<open>
  C2, as the code has it: for every \<^verbatim>\<open>CameraUniversalOmni\<close> instance
  \<^verbatim>\<open>create_narrow_lens_distorter\<close> raises, before any other test, a \<^verbatim>\<open>RuntimeError\<close>
  with the message "CameraUniversalOmni is not a narrow FOV camera model", and returns no
  factory.
\<close>

theorem narrow_rejects_universal_omni:
  "create_narrow_lens_distorter (UniversalOmni u) =
     Inl (RuntimeError ''CameraUniversalOmni is not a narrow FOV camera model'') \<and>
   map_sum exception_class id (create_narrow_lens_distorter (UniversalOmni u))
     = Inl ''RuntimeError''"
  by (simp add: create_narrow_lens_distorter_def)

text \<open>
  C2 as stated fails: the exception raised for a \<^verbatim>\<open>CameraUniversalOmni\<close> is not of a
  class \<^verbatim>\<open>UnsupportedModelError\<close>.
\<close>

theorem narrow_universal_omni_error_class_counterexample:
  "\<not> (\<exists>e. create_narrow_lens_distorter (UniversalOmni example_omni) = Inl e \<and>
          exception_class e = ''UnsupportedModelError'')"
  by (simp add: create_narrow_lens_distorter_def)

text \<open>
  C8: for every object that is neither a \<^verbatim>\<open>CameraUniversalOmni\<close> nor a
  \<^verbatim>\<open>CameraKannalaBrandt\<close>, \<^verbatim>\<open>create_wide_lens_distorter\<close> raises the error
  "Unknown camera model ..." and returns no factory; so it does for every plain
  \<^verbatim>\<open>CameraPinhole\<close> and every \<^verbatim>\<open>CameraBrown\<close>.
\<close>

theorem wide_rejects_narrow_models:
  "(\<not> isinstance_CameraUniversalOmni m \<and> \<not> isinstance_CameraKannalaBrandt m \<longrightarrow>
      create_wide_lens_distorter m =
        Inl (RuntimeError (''Unknown camera model '' @ type_str m))) \<and>
   create_wide_lens_distorter (Pinhole p) =
     Inl (RuntimeError (''Unknown camera model '' @ type_str (Pinhole p))) \<and>
   create_wide_lens_distorter (Brown b) =
     Inl (RuntimeError (''Unknown camera model '' @ type_str (Brown b)))"
  by (simp add: create_wide_lens_distorter_def)

theorem wide_rejects_narrow_models_witness:
  "\<not> isinstance_CameraUniversalOmni (Pinhole example_pinhole) \<and>
   \<not> isinstance_CameraKannalaBrandt (Pinhole example_pinhole) \<and>
   create_wide_lens_distorter (Pinhole example_pinhole) =
     Inl (RuntimeError
           (''Unknown camera model <class '' @ [CHR 0x27] @ ''pyboof.calib.CameraPinhole''
            @ [CHR 0x27] @ ''>''))"
  using wide_rejects_narrow_models [of "Pinhole example_pinhole" example_pinhole example_brown]
  by simp

section \<open>Precision of the transforms\<close>

lemma narrow_use_32: "create_narrow_lens_distorter m = Inr g \<Longrightarrow> use_32 g"
  by (auto simp add: create_narrow_lens_distorter_def LensNarrowDistortionFactory_init_def
      split: if_splits sum.splits)

lemma wide_use_32: "create_wide_lens_distorter m = Inr g \<Longrightarrow> use_32 g"
  by (auto simp add: create_wide_lens_distorter_def LensWideDistortionFactory_init_def
      split: if_splits sum.splits)

lemma narrow_precision:
  "transform_precision (distort f a b) = Some (factory_precision f)"
  "transform_precision (undistort f c d) = Some (factory_precision f)"
  by (simp_all add: distort_def undistort_def factory_precision_def method_precision_def)

lemma wide_precision:
  "transform_precision (distort_s_to_p f) = Some (factory_precision f)"
  "transform_precision (undistort_p_to_s f) = Some (factory_precision f)"
  by (simp_all add: distort_s_to_p_def undistort_p_to_s_def factory_precision_def
      method_precision_def)

lemma init_precision:
  "factory_precision (LensNarrowDistortionFactory_init j None) = F32"
  "factory_precision (LensNarrowDistortionFactory_init j (Some u)) = (if u then F32 else F64)"
  "factory_precision (LensWideDistortionFactory_init j None) = F32"
  "factory_precision (LensWideDistortionFactory_init j (Some u)) = (if u then F32 else F64)"
  by (simp_all add: LensNarrowDistortionFactory_init_def LensWideDistortionFactory_init_def
      factory_precision_def)

lemma init_java_obj:
  "java_obj (LensNarrowDistortionFactory_init j v) = j"
  "java_obj (LensWideDistortionFactory_init j v) = j"
  by (simp_all add: LensNarrowDistortionFactory_init_def LensWideDistortionFactory_init_def)

text \<open>
  C5, as the code has it: a factory holds one flag \<^verbatim>\<open>use_32\<close>, which its constructor
  sets: single precision when the argument is left out or \<^verbatim>\<open>True\<close>, double precision
  when it is \<^verbatim>\<open>False\<close>. Every transform a factory produces (distort and undistort, or
  sphere-to-pixel and pixel-to-sphere) has the precision that flag names, so a factory
  constructed with \<^verbatim>\<open>use_32=False\<close> produces double-precision transforms only. The build
  functions \<^verbatim>\<open>create_narrow_lens_distorter\<close> and \<^verbatim>\<open>create_wide_lens_distorter\<close> take no
  precision argument: every factory they return is single precision.
\<close>

theorem factory_has_one_precision:
  "transform_precision (distort f a b) = Some (factory_precision f) \<and>
   transform_precision (undistort f c d) = Some (factory_precision f) \<and>
   transform_precision (distort_s_to_p f) = Some (factory_precision f) \<and>
   transform_precision (undistort_p_to_s f) = Some (factory_precision f) \<and>
   (create_narrow_lens_distorter m = Inr g \<longrightarrow> factory_precision g = F32) \<and>
   (create_wide_lens_distorter m' = Inr g' \<longrightarrow> factory_precision g' = F32) \<and>
   factory_precision (LensNarrowDistortionFactory_init j None) = F32 \<and>
   factory_precision (LensNarrowDistortionFactory_init j (Some u)) = (if u then F32 else F64) \<and>
   java_obj (LensNarrowDistortionFactory_init j v) = j \<and>
   factory_precision (LensWideDistortionFactory_init j None) = F32 \<and>
   factory_precision (LensWideDistortionFactory_init j (Some u)) = (if u then F32 else F64) \<and>
   java_obj (LensWideDistortionFactory_init j v) = j \<and>
   transform_precision (distort (LensNarrowDistortionFactory_init j (Some False)) a b)
     = Some F64 \<and>
   transform_precision (undistort (LensNarrowDistortionFactory_init j (Some False)) c d)
     = Some F64 \<and>
   transform_precision (distort_s_to_p (LensWideDistortionFactory_init j (Some False)))
     = Some F64 \<and>
   transform_precision (undistort_p_to_s (LensWideDistortionFactory_init j (Some False)))
     = Some F64"
  using narrow_use_32 [of m g] wide_use_32 [of m' g']
  by (simp add: narrow_precision wide_precision init_precision init_java_obj)
    (simp add: factory_precision_def)

theorem factory_has_one_precision_witness:
  "create_narrow_lens_distorter (Pinhole example_pinhole) = Inr example_narrow_factory \<and>
   factory_precision example_narrow_factory = F32 \<and>
   create_wide_lens_distorter (KannalaBrandt example_kb) = Inr example_wide_factory \<and>
   factory_precision example_wide_factory = F32 \<and>
   transform_precision (distort example_narrow_factory True True) = Some F32 \<and>
   transform_precision (undistort example_narrow_factory True True) = Some F32 \<and>
   factory_precision
     (LensNarrowDistortionFactory_init (java_obj example_narrow_factory) (Some False)) = F64 \<and>
   transform_precision
     (distort (LensNarrowDistortionFactory_init (java_obj example_narrow_factory) (Some False))
        True True) = Some F64 \<and>
   transform_precision
     (undistort (LensNarrowDistortionFactory_init (java_obj example_narrow_factory) (Some False))
        True True) = Some F64 \<and>
   factory_precision
     (LensWideDistortionFactory_init (java_obj example_wide_factory) (Some False)) = F64 \<and>
   transform_precision
     (distort_s_to_p (LensWideDistortionFactory_init (java_obj example_wide_factory) (Some False)))
     = Some F64 \<and>
   transform_precision
     (undistort_p_to_s
        (LensWideDistortionFactory_init (java_obj example_wide_factory) (Some False)))
     = Some F64"
proof -
  note n = factory_has_one_precision [where f = example_narrow_factory and a = True
      and b = True and c = True and d = True and m = "Pinhole example_pinhole"
      and g = example_narrow_factory and m' = "KannalaBrandt example_kb"
      and g' = example_wide_factory and j = "java_obj example_narrow_factory" and u = False]
  note w = factory_has_one_precision [where f = example_wide_factory and a = True
      and b = True and c = True and d = True and m = "Pinhole example_pinhole"
      and g = example_narrow_factory and m' = "KannalaBrandt example_kb"
      and g' = example_wide_factory and j = "java_obj example_wide_factory" and u = False]
  have build: "create_narrow_lens_distorter (Pinhole example_pinhole)
      = Inr example_narrow_factory"
    "create_wide_lens_distorter (KannalaBrandt example_kb) = Inr example_wide_factory"
    by (simp_all add: narrow_pinhole_engine example_narrow_factory_def
        example_wide_factory_def create_wide_lens_distorter_def
        LensWideDistortionFactory_init_def)
  show ?thesis
    using n w build by simp
qed

text \<open>
  C5 as stated fails: no call of a build function yields a double-precision factory, so
  the choice of precision is not available to the callers of the build functions.
\<close>

theorem build_functions_precision_counterexample:
  "\<not> (\<exists>m g. create_narrow_lens_distorter m = Inr g \<and> factory_precision g = F64) \<and>
   \<not> (\<exists>m g. create_wide_lens_distorter m = Inr g \<and> factory_precision g = F64)"
  using narrow_use_32 wide_use_32 by (auto simp add: factory_precision_def)

section \<open>String rendering of the models\<close>

lemma sublist_skip: "sublist m s \<Longrightarrow> sublist m (p @ s)"
  by (metis sublist_append)

lemma sublist_here: "sublist (l @ v) (l @ v @ s)"
  by (metis append_assoc sublist_append_rightI)

lemma renders_intrinsics_text: "renders_intrinsics c (pre @ intrinsics_text c @ post)"
  unfolding renders_intrinsics_def renders_def intrinsics_text_def
  apply (simp only: append_assoc)
  apply (intro conjI)
  apply (rule sublist_here | rule sublist_skip)+
  done

lemma pinhole_renders: "renders_intrinsics p (CameraPinhole_str p)"
  unfolding CameraPinhole_str_def by (rule renders_intrinsics_text)

lemma brown_renders: "renders_intrinsics b (CameraBrown_str S b)"
  unfolding CameraBrown_str_def Let_def
  by (simp only: append_assoc if_distrib [of "\<lambda>t. renders_intrinsics b t"]
      renders_intrinsics_text if_cancel)

lemma brown_distorted:
  assumes "is_distorted b"
  shows "renders (CameraBrown_str S b) '' radial='' (str_radial S (radial b))"
    and "renders (CameraBrown_str S b) '' t1='' (S (t1 b))"
  unfolding CameraBrown_str_def Let_def renders_def
  using assms
  apply (simp_all only: append_assoc if_True)
  apply (rule sublist_here | rule sublist_skip)+
  done

lemma brown_undistorted:
  "\<not> is_distorted b \<Longrightarrow> CameraBrown_str S b = ''Brown{'' @ intrinsics_text b @ '' }}''"
  unfolding CameraBrown_str_def Let_def by simp

lemma omni_renders: "renders_intrinsics u (CameraUniversalOmni_str S u)"
  unfolding CameraUniversalOmni_str_def Let_def
  by (simp only: append_assoc if_distrib [of "\<lambda>t. renders_intrinsics u t"]
      renders_intrinsics_text if_cancel)

lemma omni_mirror:
  "renders (CameraUniversalOmni_str S u) '' mirror='' (format_f (mirror_offset u))"
  unfolding CameraUniversalOmni_str_def Let_def renders_def
  apply (cases "is_distorted u")
  apply (simp_all only: append_assoc if_True if_False)
  apply (rule sublist_here | rule sublist_skip)+
  done

lemma omni_distorted:
  assumes "is_distorted u"
  shows "renders (CameraUniversalOmni_str S u) '' radial='' (str_radial S (radial u))"
    and "renders (CameraUniversalOmni_str S u) '' t1='' (S (t1 u))"
  unfolding CameraUniversalOmni_str_def Let_def renders_def
  using assms
  apply (simp_all only: append_assoc if_True)
  apply (rule sublist_here | rule sublist_skip)+
  done

lemma omni_undistorted:
  "\<not> is_distorted u \<Longrightarrow>
     CameraUniversalOmni_str S u =
       ''UniversalOmni{'' @ intrinsics_text u @ '' | mirror='' @ format_f (mirror_offset u)
       @ ''}}''"
  unfolding CameraUniversalOmni_str_def Let_def by simp

lemma kb_renders: "renders_intrinsics k (CameraKannalaBrandt_str S k)"
  unfolding CameraKannalaBrandt_str_def Let_def
  by (simp only: append_assoc renders_intrinsics_text)

lemma kb_fields:
  "renders (CameraKannalaBrandt_str S k) '' symmetric='' (str_list S (symmetric k))"
  "renders (CameraKannalaBrandt_str S k) '' radial='' (str_list S (radial_kb k))"
  "renders (CameraKannalaBrandt_str S k) '' radialTrig='' (str_list S (radialTrig k))"
  "renders (CameraKannalaBrandt_str S k) '' tangent='' (str_list S (tangent k))"
  "renders (CameraKannalaBrandt_str S k) '' tangentTrig='' (str_list S (tangentTrig k))"
  unfolding CameraKannalaBrandt_str_def Let_def renders_def
  apply (simp_all only: append_assoc)
  apply (rule sublist_here | rule sublist_skip)+
  done

text \<open>Renderings of whole values, for the examples.\<close>

lemma replicate_zeros: "replicate 5 (CHR ''0'') = ''00000''"
  by (simp add: eval_nat_numeral)

lemma str_nat_0: "str_nat 0 = ''0''"
  by (simp add: str_nat.simps digit_char_def)

lemma str_nat_1: "str_nat (Suc 0) = ''1''"
  by (simp add: str_nat.simps digit_char_def)

lemma round_half_even_whole: "round_half_even (of_int i) = i"
  by (simp add: round_half_even_def)

lemma format_f_whole: "format_f (of_nat k) = str_nat k @ ''.000000''"
proof -
  have "\<bar>real k\<bar> * 1000000 = of_int (int k * 1000000)" by simp
  then have n: "nat (round_half_even (\<bar>real k\<bar> * 1000000)) = k * 1000000"
    by (simp only: round_half_even_whole)
  show ?thesis
    unfolding format_f_def n Let_def
    by (simp add: str_nat_0 replicate_zeros)
qed

lemma str_nat_500: "str_nat 500 = ''500''"
  by (simp add: str_nat.simps digit_char_def)

lemma str_nat_320: "str_nat 320 = ''320''"
  by (simp add: str_nat.simps digit_char_def)

lemma str_nat_240: "str_nat 240 = ''240''"
  by (simp add: str_nat.simps digit_char_def)

lemma format_f_0: "format_f 0 = ''0.000000''"
  using format_f_whole [of 0] by (simp add: str_nat_0)

lemma format_f_500: "format_f 500 = ''500.000000''"
  using format_f_whole [of 500] by (simp add: str_nat_500)

lemma format_f_320: "format_f 320 = ''320.000000''"
  using format_f_whole [of 320] by (simp add: str_nat_320)

lemma format_f_240: "format_f 240 = ''240.000000''"
  using format_f_whole [of 240] by (simp add: str_nat_240)

lemma str_int_0: "str_int 0 = ''0''"
  by (simp add: str_int_def str_nat_0)

lemma str_int_640: "str_int 640 = ''640''"
  by (simp add: str_int_def str_nat.simps digit_char_def)

lemma str_int_480: "str_int 480 = ''480''"
  by (simp add: str_int_def str_nat.simps digit_char_def)

lemma str_whole_0: "str_whole 0 = ''0.0''"
  by (simp add: str_whole_def str_int_def str_nat_0)

lemma str_whole_1: "str_whole 1 = ''1.0''"
  by (simp add: str_whole_def str_int_def str_nat_1)

lemma brown_init_text:
  "CameraBrown_str S CameraBrown_init =
     ''Brown{ fx=0.000000 fy=0.000000 skew=0.000000 cx=0.000000 cy=0.000000 | width=0 height=0 }}''"
  by (simp add: CameraBrown_str_def CameraBrown_init_def is_distorted_def intrinsics_text_def
      format_f_0 str_int_0)

lemma brown_tangential_text:
  "CameraBrown_str str_whole brown_tangential =
     ''Brown{ fx=500.000000 fy=500.000000 skew=0.000000 cx=320.000000 cy=240.000000 | width=640 height=480  | radial=None t1=0.0 t1=1.0 }''"
  by (simp add: CameraBrown_str_def brown_tangential_def is_distorted_def intrinsics_text_def
      format_f_0 format_f_500 format_f_320 format_f_240 str_int_640 str_int_480
      str_radial_def str_whole_0 str_whole_1)

text \<open>
  C6, as the code has it: the rendering of a Pinhole model shows its seven fields, and
  the rendering of a KannalaBrandt model shows those and its five coefficient sequences,
  each under its own label. The rendering of a Brown or UniversalOmni model always shows
  the seven fields (and \<^verbatim>\<open>mirror\<close> for UniversalOmni) under their labels; it shows
  \<^verbatim>\<open>radial\<close> and \<^verbatim>\<open>t1\<close> under their labels when \<^verbatim>\<open>is_distorted()\<close> is true, and when
  \<^verbatim>\<open>is_distorted()\<close> is false it is the text of those fields alone, closed by two braces.
\<close>

theorem str_shows_fields:
  "renders_intrinsics p (CameraPinhole_str p) \<and>
   renders_intrinsics b (CameraBrown_str S b) \<and>
   (is_distorted b \<longrightarrow>
      renders (CameraBrown_str S b) '' radial='' (str_radial S (radial b)) \<and>
      renders (CameraBrown_str S b) '' t1='' (S (t1 b))) \<and>
   (\<not> is_distorted b \<longrightarrow>
      CameraBrown_str S b = ''Brown{'' @ intrinsics_text b @ '' }}'') \<and>
   renders_intrinsics u (CameraUniversalOmni_str S u) \<and>
   renders (CameraUniversalOmni_str S u) '' mirror='' (format_f (mirror_offset u)) \<and>
   (is_distorted u \<longrightarrow>
      renders (CameraUniversalOmni_str S u) '' radial='' (str_radial S (radial u)) \<and>
      renders (CameraUniversalOmni_str S u) '' t1='' (S (t1 u))) \<and>
   (\<not> is_distorted u \<longrightarrow>
      CameraUniversalOmni_str S u =
        ''UniversalOmni{'' @ intrinsics_text u @ '' | mirror='' @ format_f (mirror_offset u)
        @ ''}}'') \<and>
   renders_intrinsics k (CameraKannalaBrandt_str S k) \<and>
   renders (CameraKannalaBrandt_str S k) '' symmetric='' (str_list S (symmetric k)) \<and>
   renders (CameraKannalaBrandt_str S k) '' radial='' (str_list S (radial_kb k)) \<and>
   renders (CameraKannalaBrandt_str S k) '' radialTrig='' (str_list S (radialTrig k)) \<and>
   renders (CameraKannalaBrandt_str S k) '' tangent='' (str_list S (tangent k)) \<and>
   renders (CameraKannalaBrandt_str S k) '' tangentTrig='' (str_list S (tangentTrig k))"
  by (intro conjI impI pinhole_renders brown_renders brown_distorted brown_undistorted
      omni_renders omni_mirror omni_distorted omni_undistorted kb_renders kb_fields)

theorem str_shows_fields_witness:
  "is_distorted brown_tangential \<and>
   renders (CameraBrown_str str_whole brown_tangential) '' radial='' ''None'' \<and>
   renders (CameraBrown_str str_whole brown_tangential) '' t1='' ''0.0'' \<and>
   \<not> is_distorted CameraBrown_init \<and>
   CameraBrown_str str_whole CameraBrown_init
     = ''Brown{'' @ intrinsics_text CameraBrown_init @ '' }}'' \<and>
   is_distorted example_omni \<and>
   renders (CameraUniversalOmni_str str_whole example_omni) '' t1='' ''0.0'' \<and>
   \<not> is_distorted CameraUniversalOmni_init \<and>
   CameraUniversalOmni_str str_whole CameraUniversalOmni_init
     = ''UniversalOmni{'' @ intrinsics_text CameraUniversalOmni_init @ '' | mirror=''
       @ format_f (mirror_offset CameraUniversalOmni_init) @ ''}}''"
proof -
  have d1: "is_distorted brown_tangential"
    by (simp add: is_distorted_def brown_tangential_def)
  have d2: "\<not> is_distorted CameraBrown_init"
    by (simp add: is_distorted_def CameraBrown_init_def)
  have d3: "is_distorted example_omni"
    by (simp add: is_distorted_def example_omni_def)
  have d4: "\<not> is_distorted CameraUniversalOmni_init"
    by (simp add: is_distorted_def CameraUniversalOmni_init_def)
  have v: "str_radial str_whole (radial brown_tangential) = ''None''"
    "str_whole (t1 brown_tangential) = ''0.0''" "str_whole (t1 example_omni) = ''0.0''"
    by (simp_all add: str_radial_def brown_tangential_def example_omni_def str_whole_0)
  show ?thesis
    using str_shows_fields [of example_pinhole brown_tangential str_whole example_omni
        example_kb]
      str_shows_fields [of example_pinhole CameraBrown_init str_whole
        CameraUniversalOmni_init example_kb]
      d1 d2 d3 d4
    by (simp add: v)
qed

text \<open>
  C6 as stated fails. The rendering of a Brown model that is not distorted shows none of
  \<^verbatim>\<open>radial\<close>, \<^verbatim>\<open>t1\<close>, \<^verbatim>\<open>t2\<close>; and the rendering of a distorted one prints the value
  of \<^verbatim>\<open>t2\<close> under the label \<^verbatim>\<open>t1\<close>, so that no label \<^verbatim>\<open>t2\<close> occurs in it.
\<close>

theorem brown_str_counterexample:
  "CameraBrown_str str_whole CameraBrown_init =
     ''Brown{ fx=0.000000 fy=0.000000 skew=0.000000 cx=0.000000 cy=0.000000 | width=0 height=0 }}'' \<and>
   \<not> sublist ''radial'' (CameraBrown_str str_whole CameraBrown_init) \<and>
   \<not> sublist ''t1'' (CameraBrown_str str_whole CameraBrown_init) \<and>
   \<not> sublist ''t2'' (CameraBrown_str str_whole CameraBrown_init) \<and>
   CameraBrown_str str_whole brown_tangential =
     ''Brown{ fx=500.000000 fy=500.000000 skew=0.000000 cx=320.000000 cy=240.000000 | width=640 height=480  | radial=None t1=0.0 t1=1.0 }'' \<and>
   \<not> sublist ''t2'' (CameraBrown_str str_whole brown_tangential)"
  unfolding brown_init_text brown_tangential_text by code_simp

section \<open>Calibration calls\<close>

lemma add_images_calls:
  "add_images (JNew c a cs) obs =
     JNew c a
       (cs @ map (\<lambda>ob. (''addImage'', [convert_into_boof_calibration_observations ob])) obs)"
  by (induction obs arbitrary: cs) simp_all

text \<open>
  C4: \<^verbatim>\<open>calibrate_universal\<close> configures the solver once, before any image is added. When
  \<^verbatim>\<open>mirror_offset\<close> is given, the call is \<^verbatim>\<open>configureUniversalOmni\<close> with that value as
  fourth argument, which keeps the mirror offset fixed at it; when it is \<^verbatim>\<open>None\<close>, the
  call has three arguments, and the mirror offset is estimated. The solver so configured
  is the one that is run.
\<close>

theorem calibrate_universal_mirror_offset:
  "jcalls (universal_solver observations jlayout num_radial tangential zero_skew mo) =
     (''configureUniversalOmni'',
        [JBool zero_skew, JInt num_radial, JBool tangential]
        @ (case mo of None \<Rightarrow> [] | Some m \<Rightarrow> [JDouble m]))
     # map (\<lambda>ob. (''addImage'', [convert_into_boof_calibration_observations ob]))
         observations
   \<and> configured_mirror
        (hd (jcalls (universal_solver observations jlayout num_radial tangential zero_skew mo)))
       = Some (case mo of None \<Rightarrow> MirrorEstimated | Some m \<Rightarrow> MirrorFixed m)
   \<and> calibrate_universal solve observations jlayout num_radial tangential zero_skew mo
       = solve (universal_solver observations jlayout num_radial tangential zero_skew mo)"
  by (cases mo) (simp_all add: universal_solver_def calibrate_universal_def add_images_calls)

lemma add_pairs_ok:
  "\<forall>k \<in> set ks. k < length L \<and> k < length R \<Longrightarrow>
   add_pairs (JNew c a cs) L R ks =
     Inr (JNew c a (cs @ map (\<lambda>k. pair_call (L ! k, R ! k)) ks))"
  by (induction ks arbitrary: cs) (simp_all add: py_getitem_def pair_call_def)

lemma add_pairs_append:
  "\<forall>k \<in> set ks. k < length L \<and> k < length R \<Longrightarrow>
   add_pairs (JNew c a cs) L R (ks @ rest) =
     add_pairs (JNew c a (cs @ map (\<lambda>k. pair_call (L ! k, R ! k)) ks)) L R rest"
  by (induction ks arbitrary: cs) (simp_all add: py_getitem_def pair_call_def)

lemma add_pairs_short:
  assumes "length R < length L"
  shows "add_pairs (JNew c a cs) L R [0..<length L] =
           Inl (IndexError ''list index out of range'')"
proof -
  have split: "[0..<length L] = [0..<length R] @ length R # [Suc (length R)..<length L]"
    using assms
    by (metis upt_conv_Cons upt_add_eq_append le_add_diff_inverse less_imp_le_nat zero_le)
  have pre: "\<forall>k \<in> set [0..<length R]. k < length L \<and> k < length R"
    using assms by auto
  show ?thesis
    unfolding split add_pairs_append [OF pre]
    using assms by (simp add: py_getitem_def)
qed

lemma upt_zip:
  "length L \<le> length R \<Longrightarrow>
     map (\<lambda>k. f (L ! k, R ! k)) [0..<length L] = map f (zip L R)"
  by (rule nth_equalityI) simp_all

lemma stereo_ok:
  assumes "length L \<le> length R"
  shows "stereo_solver L R jlayout nr tg zs =
    Inr (JNew ''boofcv.abst.geo.calibration.CalibrateStereoPlanar'' [jlayout]
          ((''configure'', [JBool zs, JInt nr, JBool tg]) # map pair_call (zip L R)))"
proof -
  have "\<forall>k \<in> set [0..<length L]. k < length L \<and> k < length R"
    using assms by auto
  from add_pairs_ok [OF this] show ?thesis
    by (simp add: stereo_solver_def upt_zip [OF assms])
qed

lemma stereo_short:
  "length R < length L \<Longrightarrow>
     stereo_solver L R jlayout nr tg zs = Inl (IndexError ''list index out of range'')"
  by (simp add: stereo_solver_def add_pairs_short)

text \<open>
  C10: \<^verbatim>\<open>calibrate_stereo\<close> pairs the observations by position. When
  \<^verbatim>\<open>observations_right\<close> is shorter than \<^verbatim>\<open>observations_left\<close>, the call fails with
  \<^verbatim>\<open>IndexError\<close> whatever the solver would do. Otherwise the solver that is run is the
  one given exactly \<^verbatim>\<open>len(observations_left)\<close> pairs, the i-th of the left with the
  i-th of the right, and the right observations past that count change nothing.
\<close>

theorem calibrate_stereo_pairs_by_position:
  "(length R < length L \<longrightarrow>
      calibrate_stereo solve L R jlayout nr tg zs = Inl (IndexError ''list index out of range''))
   \<and> (length L \<le> length R \<longrightarrow>
      stereo_solver L R jlayout nr tg zs =
        Inr (JNew ''boofcv.abst.geo.calibration.CalibrateStereoPlanar'' [jlayout]
          ((''configure'', [JBool zs, JInt nr, JBool tg]) # map pair_call (zip L R)))
      \<and> length (zip L R) = length L
      \<and> calibrate_stereo solve L R jlayout nr tg zs
          = calibrate_stereo solve L (take (length L) R) jlayout nr tg zs
      \<and> calibrate_stereo solve L R jlayout nr tg zs =
          solve (JNew ''boofcv.abst.geo.calibration.CalibrateStereoPlanar'' [jlayout]
            ((''configure'', [JBool zs, JInt nr, JBool tg]) # map pair_call (zip L R)))
      \<and> (\<forall>i < length L. zip L R ! i = (L ! i, R ! i)))"
proof (intro conjI impI)
  assume "length R < length L"
  then show "calibrate_stereo solve L R jlayout nr tg zs =
      Inl (IndexError ''list index out of range'')"
    by (simp add: calibrate_stereo_def stereo_short)
next
  assume le: "length L \<le> length R"
  show "stereo_solver L R jlayout nr tg zs =
        Inr (JNew ''boofcv.abst.geo.calibration.CalibrateStereoPlanar'' [jlayout]
          ((''configure'', [JBool zs, JInt nr, JBool tg]) # map pair_call (zip L R)))"
    by (rule stereo_ok [OF le])
  show "length (zip L R) = length L"
    using le by simp
  have le': "length L \<le> length (take (length L) R)"
    using le by simp
  have "zip L (take (length L) R) = take (length L) (zip L R)"
    by (simp add: take_zip)
  also have "\<dots> = zip L R"
    using le by simp
  finally have "zip L (take (length L) R) = zip L R" .
  then show "calibrate_stereo solve L R jlayout nr tg zs
          = calibrate_stereo solve L (take (length L) R) jlayout nr tg zs"
    by (simp add: calibrate_stereo_def stereo_ok [OF le] stereo_ok [OF le'])
  show "calibrate_stereo solve L R jlayout nr tg zs =
          solve (JNew ''boofcv.abst.geo.calibration.CalibrateStereoPlanar'' [jlayout]
            ((''configure'', [JBool zs, JInt nr, JBool tg]) # map pair_call (zip L R)))"
    by (simp add: calibrate_stereo_def stereo_ok [OF le])
  show "\<forall>i < length L. zip L R ! i = (L ! i, R ! i)"
    using le by simp
qed

theorem calibrate_stereo_pairs_by_position_witness:
  "length [obs_a] < length [obs_a, obs_b] \<and>
   calibrate_stereo (\<lambda>j. Inr j) [obs_a, obs_b] [obs_a] (JString ''layout'') 4 False True
     = Inl (IndexError ''list index out of range'') \<and>
   length [obs_a] \<le> length [obs_b, obs_a] \<and>
   calibrate_stereo (\<lambda>j. Inr j) [obs_a] [obs_b, obs_a] (JString ''layout'') 4 False True
     = Inr (JNew ''boofcv.abst.geo.calibration.CalibrateStereoPlanar'' [JString ''layout'']
          [(''configure'', [JBool True, JInt 4, JBool False]), pair_call (obs_a, obs_b)]) \<and>
   calibrate_stereo (\<lambda>j. Inr j) [obs_a] [obs_b, obs_a] (JString ''layout'') 4 False True
     = calibrate_stereo (\<lambda>j. Inr j) [obs_a] [obs_b] (JString ''layout'') 4 False True \<and>
   length [obs_a, obs_b] \<le> length [obs_b, obs_a, obs_a] \<and>
   calibrate_stereo (\<lambda>j. Inr j) [obs_a, obs_b] [obs_b, obs_a, obs_a] (JString ''layout'')
       4 False True
     = Inr (JNew ''boofcv.abst.geo.calibration.CalibrateStereoPlanar'' [JString ''layout'']
          [(''configure'', [JBool True, JInt 4, JBool False]),
           pair_call (obs_a, obs_b), pair_call (obs_b, obs_a)]) \<and>
   calibrate_stereo (\<lambda>j. Inr j) [obs_a, obs_b] [obs_b, obs_a, obs_a] (JString ''layout'')
       4 False True
     = calibrate_stereo (\<lambda>j. Inr j) [obs_a, obs_b] [obs_b, obs_a] (JString ''layout'')
         4 False True"
proof -
  have short: "length [obs_a] < length [obs_a, obs_b]"
    by simp
  have le: "length [obs_a] \<le> length [obs_b, obs_a]"
    by simp
  have le2: "length [obs_a, obs_b] \<le> length [obs_b, obs_a, obs_a]"
    by simp
  have a: "calibrate_stereo (\<lambda>j. Inr j) [obs_a, obs_b] [obs_a] (JString ''layout'') 4 False True
      = Inl (IndexError ''list index out of range'')"
    using calibrate_stereo_pairs_by_position
      [where R = "[obs_a]" and L = "[obs_a, obs_b]" and solve = "\<lambda>j. Inr j"
        and jlayout = "JString ''layout''" and nr = 4 and tg = False and zs = True] short
    by blast
  have b: "calibrate_stereo (\<lambda>j. Inr j) [obs_a] [obs_b, obs_a] (JString ''layout'') 4 False True
      = Inr (JNew ''boofcv.abst.geo.calibration.CalibrateStereoPlanar'' [JString ''layout'']
          ((''configure'', [JBool True, JInt 4, JBool False])
           # map pair_call (zip [obs_a] [obs_b, obs_a])))"
    and c: "calibrate_stereo (\<lambda>j. Inr j) [obs_a] [obs_b, obs_a] (JString ''layout'') 4 False True
      = calibrate_stereo (\<lambda>j. Inr j) [obs_a] (take (length [obs_a]) [obs_b, obs_a])
          (JString ''layout'') 4 False True"
    using calibrate_stereo_pairs_by_position
      [where R = "[obs_b, obs_a]" and L = "[obs_a]" and solve = "\<lambda>j. Inr j"
        and jlayout = "JString ''layout''" and nr = 4 and tg = False and zs = True] le
    by blast+
  have b2: "calibrate_stereo (\<lambda>j. Inr j) [obs_a, obs_b] [obs_b, obs_a, obs_a]
        (JString ''layout'') 4 False True
      = Inr (JNew ''boofcv.abst.geo.calibration.CalibrateStereoPlanar'' [JString ''layout'']
          ((''configure'', [JBool True, JInt 4, JBool False])
           # map pair_call (zip [obs_a, obs_b] [obs_b, obs_a, obs_a])))"
    and c2: "calibrate_stereo (\<lambda>j. Inr j) [obs_a, obs_b] [obs_b, obs_a, obs_a]
        (JString ''layout'') 4 False True
      = calibrate_stereo (\<lambda>j. Inr j) [obs_a, obs_b]
          (take (length [obs_a, obs_b]) [obs_b, obs_a, obs_a]) (JString ''layout'') 4 False True"
    using calibrate_stereo_pairs_by_position
      [where R = "[obs_b, obs_a, obs_a]" and L = "[obs_a, obs_b]" and solve = "\<lambda>j. Inr j"
        and jlayout = "JString ''layout''" and nr = 4 and tg = False and zs = True] le2
    by blast+
  show ?thesis
    using short le le2 a b c b2 c2 by simp
qed

section \<open>The store under \<open>remove_distortion\<close>\<close>

lemma take_set_extra: "n \<le> a \<Longrightarrow> take n (set_extra h a name v) = take n h"
  by (simp add: set_extra_def)

lemma length_set_extra: "length (set_extra h a name v) = length h"
  by (simp add: set_extra_def)

lemma obj_set_extra: "obj (set_extra h a name v ! k) = obj (h ! k)"
  by (cases "a < length h") (simp_all add: set_extra_def nth_list_update list_update_beyond)

lemma set_at_frame:
  "CameraPinhole_set_at h self orig = (r, h') \<Longrightarrow> n \<le> self \<Longrightarrow>
     take n h' = take n h \<and> length h' = length h"
  by (auto simp add: CameraPinhole_set_at_def split: sum.splits)

lemma change_frame:
  "create_change_camera_model X h a d t adj bd = (r, h') \<Longrightarrow>
     take (length h) h' = h \<and>
     (\<forall>dist out. r = Inr (dist, out) \<longrightarrow> out = length h \<and> length h' = Suc (length h))"
  by (auto simp add: create_change_camera_model_def alloc_def Let_def
      split: sum.splits prod.splits)

lemma set_init_copy: "CameraPinhole_set CameraPinhole_init p = (p::CameraPinhole)"
  by (simp add: CameraPinhole_set_def CameraPinhole_init_def)

lemma remove_distortion_store:
  assumes run: "remove_distortion X h input output intrinsic adjustment border = (r, h')"
    and ref: "intrinsic < length h"
  shows "take (length h) h' = h"
    and "length h < length h'"
    and "r = Inr out \<Longrightarrow> out = Suc (length h) \<and> length h' = Suc (Suc (length h))"
    and "r = Inr out \<Longrightarrow> pinhole_fields (obj (h ! intrinsic)) = Inr p \<Longrightarrow>
           obj (h' ! length h) = Pinhole p"
proof -
  define h1 where "h1 = h @ [\<lparr>obj = Pinhole CameraPinhole_init, extras = Map.empty\<rparr>]"
  obtain e h2 where s2: "CameraPinhole_set_at h1 (length h) intrinsic = (e, h2)"
    by (cases "CameraPinhole_set_at h1 (length h) intrinsic")
  have t2: "take (length h) h2 = h" and l2: "length h2 = Suc (length h)"
    using set_at_frame [OF s2, of "length h"] by (simp_all add: h1_def)
  have i1: "obj (h1 ! intrinsic) = obj (h ! intrinsic)"
    using ref by (simp add: h1_def nth_append)
  define h5 where "h5 = set_extra (set_extra (set_extra h2 (length h) ''radial''
      (PyList [PyInt 0, PyInt 0])) (length h) ''t1'' (PyInt 0)) (length h) ''t2'' (PyInt 0)"
  have t5: "take (length h) h5 = h" and l5: "length h5 = Suc (length h)"
    by (simp_all add: h5_def take_set_extra length_set_extra t2 l2)
  obtain r6 h6 where s6: "create_change_camera_model X h5 intrinsic (length h)
      (JInvoke input ''getImageType'' []) adjustment border = (r6, h6)"
    by (cases "create_change_camera_model X h5 intrinsic (length h)
      (JInvoke input ''getImageType'' []) adjustment border")
  have t6': "take (length h5) h6 = h5"
    and o6: "\<And>dist out. r6 = Inr (dist, out) \<Longrightarrow>
               out = length h5 \<and> length h6 = Suc (length h5)"
    using change_frame [OF s6] by simp_all
  have "take (length h) (take (length h5) h6) = take (length h) h5"
    by (simp only: t6')
  then have t6: "take (length h) h6 = h"
    by (simp add: l5 t5 min_def)
  have l6: "length h < length h6"
    by (metis t6' l5 length_take lessI min.cobounded1 less_le_trans min.commute)
  have d5: "e = None \<Longrightarrow> pinhole_fields (obj (h ! intrinsic)) = Inr p \<Longrightarrow>
      obj (h5 ! length h) = Pinhole p"
    using s2 by (auto simp add: h5_def obj_set_extra CameraPinhole_set_at_def
        i1 [unfolded h1_def] h1_def set_init_copy split: sum.splits)
  have d6: "h6 ! length h = h5 ! length h"
    by (metis t6' l5 lessI nth_take)
  have res: "(r, h') =
      (case e of Some err \<Rightarrow> (Inl err, h2)
       | None \<Rightarrow>
          (case r6 of Inl err \<Rightarrow> (Inl err, h6)
           | Inr (distorter, intrinsic_out) \<Rightarrow>
               (case apply_distort X distorter input output of
                  Some err \<Rightarrow> (Inl err, h6) | None \<Rightarrow> (Inr intrinsic_out, h6))))"
    using run s2 s6
    by (simp add: remove_distortion_def alloc_def Let_def h1_def h5_def
        split: option.splits sum.splits prod.splits)
  show "take (length h) h' = h"
    using res t2 t6 by (auto split: option.splits sum.splits prod.splits)
  show "length h < length h'"
    using res l2 l6 by (auto split: option.splits sum.splits prod.splits)
  show "r = Inr out \<Longrightarrow> out = Suc (length h) \<and> length h' = Suc (Suc (length h))"
    using res o6 l5 by (auto split: option.splits sum.splits prod.splits)
  show "r = Inr out \<Longrightarrow> pinhole_fields (obj (h ! intrinsic)) = Inr p \<Longrightarrow>
           obj (h' ! length h) = Pinhole p"
    using res d5 d6 by (auto split: option.splits sum.splits prod.splits)
qed

text \<open>
  C9: whatever \<^verbatim>\<open>remove_distortion\<close> returns or raises, the object \<^verbatim>\<open>intrinsic\<close> refers
  to is afterwards what it was before the call, and so is every object that existed
  before the call. \<^verbatim>\<open>desired\<close> is a new object, which receives the seven values of
  \<^verbatim>\<open>intrinsic\<close>; the model returned is another new object.
\<close>

theorem remove_distortion_keeps_intrinsic:
  "remove_distortion X h input output intrinsic adjustment border = (r, h') \<Longrightarrow>
   intrinsic < length h \<Longrightarrow>
     h' ! intrinsic = h ! intrinsic \<and>
     take (length h) h' = h \<and>
     length h < length h' \<and>
     (\<forall>out. r = Inr out \<longrightarrow>
        out \<noteq> intrinsic \<and> length h < out \<and> out < length h' \<and>
        (\<forall>p. pinhole_fields (obj (h ! intrinsic)) = Inr p \<longrightarrow>
           obj (h' ! length h) = Pinhole p))"
proof -
  assume run: "remove_distortion X h input output intrinsic adjustment border = (r, h')"
    and ref: "intrinsic < length h"
  note st = remove_distortion_store [OF run ref]
  have "h' ! intrinsic = take (length h) h' ! intrinsic"
    using ref by simp
  then have same: "h' ! intrinsic = h ! intrinsic"
    by (simp only: st(1))
  have fresh: "\<forall>out. r = Inr out \<longrightarrow>
        out \<noteq> intrinsic \<and> length h < out \<and> out < length h' \<and>
        (\<forall>p. pinhole_fields (obj (h ! intrinsic)) = Inr p \<longrightarrow>
           obj (h' ! length h) = Pinhole p)"
    using st(3) st(4) ref by fastforce
  show ?thesis
    using same st(1) st(2) fresh by blast
qed

theorem remove_distortion_keeps_intrinsic_witness:
  "0 < length example_heap \<and>
   fst (remove_distortion example_externals example_heap (JString ''in'') (JString ''out'')
          0 AdjustmentType_FULL_VIEW 0) = Inr 2 \<and>
   snd (remove_distortion example_externals example_heap (JString ''in'') (JString ''out'')
          0 AdjustmentType_FULL_VIEW 0) ! 0 = \<lparr>obj = Brown example_brown, extras = Map.empty\<rparr> \<and>
   obj (snd (remove_distortion example_externals example_heap (JString ''in'')
          (JString ''out'') 0 AdjustmentType_FULL_VIEW 0) ! 1) = Pinhole example_pinhole"
proof -
  have ref: "0 < length example_heap"
    by (simp add: example_heap_def)
  have ok: "fst (remove_distortion example_externals example_heap (JString ''in'')
      (JString ''out'') 0 AdjustmentType_FULL_VIEW 0) = Inr 2"
    by (simp add: remove_distortion_def alloc_def CameraPinhole_set_at_def set_extra_def
        create_change_camera_model_def adjustment_to_java_def AdjustmentType_NONE_def
        AdjustmentType_FULL_VIEW_def example_externals_def example_heap_def Let_def)
  have p: "pinhole_fields (obj (example_heap ! 0)) = Inr example_pinhole"
    by (simp add: example_heap_def example_brown_def example_pinhole_def
        CameraPinhole.truncate_def)
  show ?thesis
    using remove_distortion_keeps_intrinsic [OF prod.collapse [symmetric] ref,
        of example_externals "JString ''in''" "JString ''out''" AdjustmentType_FULL_VIEW 0]
      ref ok p
    by (simp add: example_heap_def)
qed

end
